theory Spec2Isabelle
  imports Main "HOL-Library.AList" "HOL-Library.Word"
begin

section \<open>The PKI fetch paths of builtin/logical/pki/path_fetch.go\<close>

text \<open>
  The theory embeds the two request handlers of \<^verbatim>\<open>path_fetch.go\<close>:
  \<^verbatim>\<open>pathFetchRead\<close> (CA, CA chain, CRL and certificate by serial) and
  \<^verbatim>\<open>pathFetchCertListDetailed\<close> (the detailed listing). Go strings and byte
  slices are both \<open>string\<close> (lists of 8-bit characters), a nil pointer is \<open>None\<close>, an
  \<^verbatim>\<open>error\<close> result is an \<open>error option\<close> or the left side of a sum, and the
  collaborators the handlers call but do not define (storage reads, the CA bundle, the
  If-Modified-Since helper, JSON and X.509 decoding) are fields of an environment record,
  so that every result they can hand back is an input of the model.
\<close>

subsection \<open>Errors, values and responses\<close>

text \<open>
  The handlers distinguish \<^verbatim>\<open>errutil.UserError\<close> from every other error by a type
  switch; \<open>Error\<close> is the \<^verbatim>\<open>Error()\<close> method, the message.
\<close>

datatype error = UserError string | InternalError string

fun Error :: "error \<Rightarrow> string" where
  "Error (UserError m) = m"
| "Error (InternalError m) = m"

text \<open>
  A \<^verbatim>\<open>time.Time\<close> is an instant counted from the zero time, so that
  \<^verbatim>\<open>IsZero\<close> is a comparison with 0.
\<close>

datatype time = Time int

fun IsZero :: "time \<Rightarrow> bool" where
  "IsZero (Time n) = (n = 0)"

text \<open>The \<^verbatim>\<open>interface{}\<close> values the handlers store in response data.\<close>

datatype val =
    VString string
  | VBytes string
  | VInt int
  | VInt64 "64 word"
  | VTime time
  | VStrings "string list"
  | VMap "(string \<times> val) list"

text \<open>
  \<^verbatim>\<open>logical.Response\<close>: only its \<^verbatim>\<open>Data\<close> map is used here. The map is
  an association list with distinct keys, written with \<open>AList.update\<close> and read with
  \<open>map_of\<close>.
\<close>

record response =
  Data :: "(string \<times> val) list"

text \<open>
  The three data keys of a raw response are constants of the SDK's package
  \<^verbatim>\<open>logical\<close>, which is not among the source files; the handler uses them as
  keys only.
\<close>

definition HTTPContentType :: string where
  "HTTPContentType = ''http_content_type''"

definition HTTPRawBody :: string where
  "HTTPRawBody = ''http_raw_body''"

definition HTTPStatusCode :: string where
  "HTTPStatusCode = ''http_status_code''"

text \<open>
  Modelled from the spec: \<^verbatim>\<open>logical.ErrorResponse\<close> and
  \<^verbatim>\<open>Response.IsError\<close> of the SDK, which are not among the source files. The
  spec's error envelope is a response that carries the error text and nothing else: its
  only data key is \<^verbatim>\<open>error\<close>.
\<close>

definition ErrorResponse :: "string \<Rightarrow> response" where
  "ErrorResponse text = \<lparr>Data = [(''error'', VString text)]\<rparr>"

definition IsError :: "response \<Rightarrow> bool" where
  "IsError r \<longleftrightarrow> length (Data r) = 1 \<and> map_of (Data r) ''error'' \<noteq> None"

subsection \<open>Strings, base64 and PEM\<close>

text \<open>
  \<^verbatim>\<open>strings.Join\<close>, \<^verbatim>\<open>strings.Contains\<close> and
  \<^verbatim>\<open>strings.HasSuffix\<close> of the Go library.
\<close>

fun Join :: "string list \<Rightarrow> string \<Rightarrow> string" where
  "Join [] sep = []"
| "Join [x] sep = x"
| "Join (x # y # ys) sep = x @ sep @ Join (y # ys) sep"

fun Contains :: "string \<Rightarrow> string \<Rightarrow> bool" where
  "Contains [] sub = (sub = [])"
| "Contains (c # cs) sub = (take (length sub) (c # cs) = sub \<or> Contains cs sub)"

definition HasSuffix :: "string \<Rightarrow> string \<Rightarrow> bool" where
  "HasSuffix s suffix \<longleftrightarrow>
     length suffix \<le> length s \<and> drop (length s - length suffix) s = suffix"

text \<open>
  \<^verbatim>\<open>strings.TrimSpace\<close> on ASCII text: it removes tab, line feed, vertical tab,
  form feed, carriage return and space from both ends. The handler applies it to PEM text
  and to the chain string built from PEM text only, which is ASCII whatever the
  certificate bytes are (lemma \<open>pem_ascii\<close> below), so the library's other branch,
  for text with bytes above 127, is never taken.
\<close>

definition asciiSpace :: "char \<Rightarrow> bool" where
  "asciiSpace c \<longleftrightarrow>
     c = CHR 0x09 \<or> c = CHR 0x0A \<or> c = CHR 0x0B \<or> c = CHR 0x0C \<or> c = CHR 0x0D \<or> c = CHR 0x20"

definition TrimSpace :: "string \<Rightarrow> string" where
  "TrimSpace s = rev (dropWhile asciiSpace (rev (dropWhile asciiSpace s)))"

text \<open>
  \<^verbatim>\<open>base64.StdEncoding\<close>: three bytes become four characters of the alphabet,
  and a last group of one or two bytes is padded with \<open>=\<close>.
\<close>

definition encodeStd :: string where
  "encodeStd = ''ABCDEFGHIJKLMNOPQRSTUVWXYZabcdefghijklmnopqrstuvwxyz0123456789+/''"

fun base64_EncodeToString :: "string \<Rightarrow> string" where
  "base64_EncodeToString [] = []"
| "base64_EncodeToString [a] =
     [encodeStd ! (of_char a div 4), encodeStd ! ((of_char a mod 4) * 16), CHR ''='', CHR ''='']"
| "base64_EncodeToString [a, b] =
     [encodeStd ! (of_char a div 4),
      encodeStd ! ((of_char a mod 4) * 16 + of_char b div 16),
      encodeStd ! ((of_char b mod 16) * 4), CHR ''='']"
| "base64_EncodeToString (a # b # c # rest) =
     [encodeStd ! (of_char a div 4),
      encodeStd ! ((of_char a mod 4) * 16 + of_char b div 16),
      encodeStd ! ((of_char b mod 16) * 4 + of_char c div 64),
      encodeStd ! (of_char c mod 64)] @ base64_EncodeToString rest"

text \<open>
  The line breaker of \<^verbatim>\<open>encoding/pem\<close>: the base64 text in lines of 64
  characters, each ended by a line feed (no line at all for an empty text).
\<close>

definition pemLineLength :: nat where
  "pemLineLength = 64"

function lineBreaker :: "string \<Rightarrow> string" where
  "lineBreaker s =
     (if s = [] then []
      else take pemLineLength s @ ''\<newline>'' @ lineBreaker (drop pemLineLength s))"
  by pat_completeness auto
termination
  by (relation "measure length") (auto simp: pemLineLength_def)

declare lineBreaker.simps [simp del]

text \<open>
  \<^verbatim>\<open>pem.EncodeToMemory\<close> of a block with a type, bytes and no headers (the
  handler never sets headers, so the encoder's only failure, a header key with a colon,
  cannot happen).
\<close>

definition pem_EncodeToMemory :: "string \<Rightarrow> string \<Rightarrow> string" where
  "pem_EncodeToMemory blockType bytes =
     ''-----BEGIN '' @ blockType @ ''-----\<newline>'' @
     lineBreaker (base64_EncodeToString bytes) @
     ''-----END '' @ blockType @ ''-----\<newline>''"

text \<open>The same block without its final line feed: what trimming leaves of it.\<close>

definition pemText :: "string \<Rightarrow> string \<Rightarrow> string" where
  "pemText blockType bytes =
     ''-----BEGIN '' @ blockType @ ''-----\<newline>'' @
     lineBreaker (base64_EncodeToString bytes) @
     ''-----END '' @ blockType @ ''-----''"

text \<open>
  The chain loop of \<^verbatim>\<open>pathFetchRead\<close> (lines 510 to 521): starting from the
  empty string, every certificate of the chain appends a line feed and its trimmed PEM
  block (\<^verbatim>\<open>strings.Join\<close> of the two), and the whole is trimmed at the end.
\<close>

definition chainStep :: "string \<Rightarrow> string \<Rightarrow> string" where
  "chainStep ca chainStr =
     Join [chainStr, TrimSpace (pem_EncodeToMemory ''CERTIFICATE'' ca)] ''\<newline>''"

definition buildChain :: "string list \<Rightarrow> string" where
  "buildChain rawChain = TrimSpace (fold chainStep rawChain [])"

text \<open>
  The lines of a text, to say what a blank line is: \<open>split_nl\<close> cuts at every line
  feed, the empty text has no line, and a line is blank when it holds nothing but white
  space.
\<close>

fun split_nl :: "string \<Rightarrow> string list" where
  "split_nl [] = [[]]"
| "split_nl (c # cs) =
     (case split_nl cs of
        [] \<Rightarrow> [[c]]
      | l # ls \<Rightarrow> if c = CHR 0x0A then [] # l # ls else (c # l) # ls)"

definition text_lines :: "string \<Rightarrow> string list" where
  "text_lines s = (if s = [] then [] else split_nl s)"

definition blank :: "string \<Rightarrow> bool" where
  "blank l \<longleftrightarrow> list_all asciiSpace l"

subsection \<open>The collaborators of pathFetchRead\<close>

text \<open>
  \<^verbatim>\<open>logical.StorageEntry\<close> with its value; the CA bundle with the two parts the
  handler's chain is made of (\<^verbatim>\<open>caInfo.Certificate.Raw\<close> and the
  \<^verbatim>\<open>Bytes\<close> of the blocks of its \<^verbatim>\<open>CAChain\<close>); and
  \<^verbatim>\<open>revocationInfo\<close> with the three fields the handler reads after decoding.
\<close>

record storageEntry =
  Value :: string

record caInfo =
  CertificateRaw :: string
  CAChain :: "string list"

text \<open>
  Modelled from the spec: \<^verbatim>\<open>GetFullChain\<close> of the SDK's CA bundle, which is not
  among the source files. The spec's CA info is a certificate and a chain that leaves
  that certificate out, and its chain output is assembled from the certificate plus the
  chain: the full chain is the certificate followed by the chain. A chain that already
  starts with the certificate is not given it a second time. The full chain is never
  empty.
\<close>

definition GetFullChain :: "caInfo \<Rightarrow> string list" where
  "GetFullChain ca =
     (case CAChain ca of
        [] \<Rightarrow> [CertificateRaw ca]
      | first # others \<Rightarrow>
          if first = CertificateRaw ca then CAChain ca
          else CertificateRaw ca # CAChain ca)"

record revocationInfo =
  RevocationTime :: "64 word"
  RevocationTimeUTC :: time
  CertificateIssuer :: string

datatype ifModifiedReqType = ifModifiedCA | ifModifiedCRL | ifModifiedDeltaCRL

text \<open>
  What the handler calls and \<^verbatim>\<open>path_fetch.go\<close> does not define. Each field is
  the result the call site receives:
  \<^item> \<open>sendNotModifiedResponseIfNecessary\<close> gets the request class and the response and
    returns \<^verbatim>\<open>(ret, err)\<close> together with the response as it has left it;
  \<^item> \<open>fetchCAInfo\<close> returns the CA bundle or an error;
  \<^item> \<open>fetchCertBySerial\<close> gets a path prefix and a serial and returns an entry, nil
    (\<open>None\<close>) or an error;
  \<^item> \<open>DecodeJSON\<close> decodes a revocation entry or fails;
  \<^item> \<open>FormatRFC3339Nano\<close> is \<^verbatim>\<open>Format(time.RFC3339Nano)\<close>;
  \<^item> \<open>legacyCRLPath\<close> and \<open>deltaCRLPath\<close> are the two storage names of the CRLs;
  \<^item> \<open>IsWarn\<close> says whether the logger emits warnings.
\<close>

record backend =
  sendNotModifiedResponseIfNecessary ::
    "ifModifiedReqType \<Rightarrow> response \<Rightarrow> bool \<times> error option \<times> response"
  fetchCAInfo :: "error + caInfo"
  fetchCertBySerial :: "string \<Rightarrow> string \<Rightarrow> error + storageEntry option"
  DecodeJSON :: "storageEntry \<Rightarrow> error + revocationInfo"
  FormatRFC3339Nano :: "time \<Rightarrow> string"
  legacyCRLPath :: string
  deltaCRLPath :: string
  IsWarn :: bool

text \<open>
  The request: its path, and the \<^verbatim>\<open>serial\<close> field of the field data (the two
  routes on which the handler reads it declare it as a string).
\<close>

record request =
  Path :: string
  serial :: string

subsection \<open>pathFetchRead\<close>

text \<open>
  The variables of the handler that are alive at the label \<^verbatim>\<open>reply\<close>, with
  their Go zero values and the empty response the handler starts with.
\<close>

record locals =
  contentType :: string
  certificate :: string
  fullChain :: string
  revocationTime :: "64 word"
  revocationIssuerId :: string
  revocationTimeRfc3339 :: string
  response :: "response option"
  retErr :: "error option"

definition init_locals :: locals where
  "init_locals =
     \<lparr>contentType = [], certificate = [], fullChain = [], revocationTime = 0,
      revocationIssuerId = [], revocationTimeRfc3339 = [],
      response = Some \<lparr>Data = []\<rparr>, retErr = None\<rparr>"

text \<open>
  The first switch (lines 427 to 490) either jumps to \<^verbatim>\<open>reply\<close> or goes on
  with a serial and a PEM type.
\<close>

datatype dispatched = GotoReply locals | Dispatched string string locals

definition isCAPath :: "string \<Rightarrow> bool" where
  "isCAPath p \<longleftrightarrow>
     p = ''ca'' \<or> p = ''ca/pem'' \<or> p = ''cert/ca'' \<or> p = ''cert/ca/raw'' \<or> p = ''cert/ca/raw/pem''"

definition isCRLPath :: "string \<Rightarrow> bool" where
  "isCRLPath p \<longleftrightarrow>
     p = ''crl'' \<or> p = ''crl/pem'' \<or> p = ''crl/delta'' \<or> p = ''crl/delta/pem'' \<or>
     p = ''cert/crl'' \<or> p = ''cert/crl/raw'' \<or> p = ''cert/crl/raw/pem'' \<or>
     p = ''cert/delta-crl'' \<or> p = ''cert/delta-crl/raw'' \<or> p = ''cert/delta-crl/raw/pem''"

definition dispatch :: "backend \<Rightarrow> request \<Rightarrow> dispatched" where
  "dispatch b req =
     (let p = Path req in
      if isCAPath p then
        (case sendNotModifiedResponseIfNecessary b ifModifiedCA \<lparr>Data = []\<rparr> of
           (ret, err, resp) \<Rightarrow>
             if err \<noteq> None \<or> ret
             then GotoReply (init_locals\<lparr>response := Some resp, retErr := err\<rparr>)
             else if p = ''ca/pem'' \<or> p = ''cert/ca/raw/pem''
             then Dispatched ''ca'' ''CERTIFICATE''
                    (init_locals\<lparr>response := Some resp,
                       contentType := ''application/pem-certificate-chain''\<rparr>)
             else if p = ''cert/ca''
             then Dispatched ''ca'' ''CERTIFICATE''
                    (init_locals\<lparr>response := Some resp, contentType := []\<rparr>)
             else Dispatched ''ca'' []
                    (init_locals\<lparr>response := Some resp,
                       contentType := ''application/pkix-cert''\<rparr>))
      else if p = ''ca_chain'' \<or> p = ''cert/ca_chain'' then
        (if p = ''ca_chain''
         then Dispatched ''ca_chain'' [] (init_locals\<lparr>contentType := ''application/pkix-cert''\<rparr>)
         else Dispatched ''ca_chain'' [] init_locals)
      else if isCRLPath p then
        (let isDelta = Contains p ''delta'';
             reqType = (if isDelta then ifModifiedDeltaCRL else ifModifiedCRL) in
         case sendNotModifiedResponseIfNecessary b reqType \<lparr>Data = []\<rparr> of
           (ret, err, resp) \<Rightarrow>
             if err \<noteq> None \<or> ret
             then GotoReply (init_locals\<lparr>response := Some resp, retErr := err\<rparr>)
             else
               (let s = (if isDelta then deltaCRLPath b else legacyCRLPath b) in
                if Contains p ''pem''
                then Dispatched s ''X509 CRL''
                       (init_locals\<lparr>response := Some resp,
                          contentType := ''application/x-pem-file''\<rparr>)
                else if p = ''cert/crl'' \<or> p = ''cert/delta-crl''
                then Dispatched s ''X509 CRL''
                       (init_locals\<lparr>response := Some resp, contentType := []\<rparr>)
                else Dispatched s []
                       (init_locals\<lparr>response := Some resp,
                          contentType := ''application/pkix-crl''\<rparr>)))
      else if HasSuffix p ''/pem'' \<or> HasSuffix p ''/raw'' then
        (if HasSuffix p ''/pem''
         then Dispatched (serial req) ''CERTIFICATE''
                (init_locals\<lparr>contentType := ''application/pem-certificate-chain''\<rparr>)
         else Dispatched (serial req) []
                (init_locals\<lparr>contentType := ''application/pkix-cert''\<rparr>))
      else Dispatched (serial req) ''CERTIFICATE'' init_locals)"

text \<open>
  An error of a collaborator (lines 499 to 508, 541 to 550 and 569 to 578): a user error
  becomes an error response, any other error is kept in \<^verbatim>\<open>retErr\<close>; both jump
  to \<^verbatim>\<open>reply\<close>.
\<close>

definition failWith :: "error \<Rightarrow> locals \<Rightarrow> locals" where
  "failWith err l =
     (case err of
        UserError m \<Rightarrow> l\<lparr>response := Some (ErrorResponse (Error err))\<rparr>
      | InternalError m \<Rightarrow> l\<lparr>retErr := Some err\<rparr>)"

text \<open>
  The handler either returns at once (line 583) or reaches the label
  \<^verbatim>\<open>reply\<close> with its variables.
\<close>

datatype outcome =
    Return "response option" "error option"
  | Reply locals

definition encodeIfPem :: "string \<Rightarrow> string \<Rightarrow> string" where
  "encodeIfPem pemType bytes =
     (if length pemType \<noteq> 0 then TrimSpace (pem_EncodeToMemory pemType bytes) else bytes)"

definition resolveCA :: "backend \<Rightarrow> string \<Rightarrow> string \<Rightarrow> locals \<Rightarrow> outcome" where
  "resolveCA b ser pemType l =
     (case fetchCAInfo b of
        Inl err \<Rightarrow> Reply (failWith err l)
      | Inr ca \<Rightarrow>
          if ser = ''ca_chain''
          then (let chain = buildChain (GetFullChain ca)
                in Reply (l\<lparr>fullChain := chain, certificate := chain\<rparr>))
          else if ser = ''ca''
          then Reply (l\<lparr>certificate := encodeIfPem pemType (CertificateRaw ca)\<rparr>)
          else Reply l)"

definition decodeErrorText :: "string \<Rightarrow> error \<Rightarrow> string" where
  "decodeErrorText ser err =
     ''Error decoding revocation entry for serial '' @ ser @ '': '' @ Error err"

definition resolveCert :: "backend \<Rightarrow> string \<Rightarrow> string \<Rightarrow> string \<Rightarrow> locals \<Rightarrow> outcome" where
  "resolveCert b p ser pemType l =
     (case fetchCertBySerial b p ser of
        Inl funcErr \<Rightarrow> Reply (failWith funcErr l)
      | Inr None \<Rightarrow> Reply (l\<lparr>response := None\<rparr>)
      | Inr (Some certEntry) \<Rightarrow>
          (let l1 = l\<lparr>certificate := encodeIfPem pemType (Value certEntry)\<rparr> in
           case fetchCertBySerial b ''revoked/'' ser of
             Inl funcErr \<Rightarrow> Reply (failWith funcErr l1)
           | Inr None \<Rightarrow> Reply l1
           | Inr (Some revokedEntry) \<Rightarrow>
               (case DecodeJSON b revokedEntry of
                  Inl err \<Rightarrow> Return (Some (ErrorResponse (decodeErrorText ser err))) None
                | Inr revInfo \<Rightarrow>
                    Reply (l1\<lparr>revocationTime := RevocationTime revInfo,
                             revocationIssuerId := CertificateIssuer revInfo,
                             revocationTimeRfc3339 :=
                               (if \<not> IsZero (RevocationTimeUTC revInfo)
                                then FormatRFC3339Nano b (RevocationTimeUTC revInfo)
                                else [])\<rparr>))))"

definition resolve :: "backend \<Rightarrow> request \<Rightarrow> outcome" where
  "resolve b req =
     (case dispatch b req of
        GotoReply l \<Rightarrow> Reply l
      | Dispatched ser pemType l \<Rightarrow>
          if length ser = 0
          then Reply (l\<lparr>response := Some (ErrorResponse ''The serial number must be provided'')\<rparr>)
          else if ser = ''ca_chain'' \<or> ser = ''ca''
          then resolveCA b ser pemType l
          else resolveCert b (Path req) ser pemType l)"

text \<open>
  The final switch (lines 593 to 636). The result is the returned response, the returned
  error and the errors written to the log as warnings.
\<close>

type_synonym result = "response option \<times> error option \<times> error list"

definition rawResponse :: "string \<Rightarrow> string \<Rightarrow> response" where
  "rawResponse ct body =
     \<lparr>Data = [(HTTPContentType, VString ct), (HTTPRawBody, VBytes body),
              (HTTPStatusCode, VInt (if length body > 0 then 200 else 204))]\<rparr>"

definition structuredData :: "locals \<Rightarrow> (string \<times> val) list \<Rightarrow> (string \<times> val) list" where
  "structuredData l d =
     (let d1 = AList.update ''certificate'' (VString (certificate l)) d;
          d2 = AList.update ''revocation_time'' (VInt64 (revocationTime l)) d1;
          d3 = AList.update ''revocation_time_rfc3339'' (VString (revocationTimeRfc3339 l)) d2;
          d4 = (if revocationIssuerId l \<noteq> []
                then AList.update ''issuer_id'' (VString (revocationIssuerId l)) d3 else d3)
      in if length (fullChain l) > 0
         then AList.update ''ca_chain'' (VString (fullChain l)) d4 else d4)"

definition reply :: "backend \<Rightarrow> locals \<Rightarrow> result" where
  "reply b l =
     (if length (contentType l) \<noteq> 0 then
        (Some (rawResponse (contentType l) (certificate l)), None,
         (case retErr l of
            Some e \<Rightarrow> if IsWarn b then [e] else []
          | None \<Rightarrow> []))
      else if retErr l \<noteq> None then (None, retErr l, [])
      else
        (case response l of
           None \<Rightarrow> (None, None, [])
         | Some r \<Rightarrow>
             if IsError r then (Some r, None, [])
             else (Some (r\<lparr>Data := structuredData l (Data r)\<rparr>), None, [])))"

definition pathFetchRead :: "backend \<Rightarrow> request \<Rightarrow> result" where
  "pathFetchRead b req =
     (case resolve b req of
        Return resp err \<Rightarrow> (resp, err, [])
      | Reply l \<Rightarrow> reply b l)"

subsection \<open>pathFetchCertListDetailed\<close>

text \<open>
  Storage as the listing uses it: \<^verbatim>\<open>ListPage(prefix, after, limit)\<close> and
  \<^verbatim>\<open>Get(key)\<close>. A request carries its storage, the result of
  \<^verbatim>\<open>BeginReadOnlyTx\<close> when the storage is transactional (\<open>None\<close> when it is
  not), and the two fields \<^verbatim>\<open>after\<close> and \<^verbatim>\<open>limit\<close>.
\<close>

record storage =
  ListPage :: "string \<Rightarrow> string \<Rightarrow> int \<Rightarrow> error + string list"
  Get :: "string \<Rightarrow> error + storageEntry option"

record listRequest =
  Storage :: storage
  BeginReadOnlyTx :: "(error + storage) option"
  after :: string
  limit :: int

text \<open>
  The parsed certificate as the listing reads it. The public key is one of the three
  types of the type switch, with the size the switch asks for (bytes for RSA, the
  curve's bit size for ECDSA), or any other type.
\<close>

datatype publicKey = RSAPublicKey int | ECDSAPublicKey int | Ed25519PublicKey | OtherPublicKey

record certData =
  SubjectCommonName :: string
  IssuerString :: string
  PublicKey :: publicKey
  NotAfter :: time
  NotBefore :: time
  DNSNames :: "string list"

text \<open>
  \<^verbatim>\<open>denormalizeSerial\<close> and \<^verbatim>\<open>x509.ParseCertificate\<close> are called by
  the listing and defined elsewhere; both are fields of its environment.
\<close>

record listBackend =
  denormalizeSerial :: "string \<Rightarrow> string"
  ParseCertificate :: "string \<Rightarrow> error + certData"

text \<open>
  Modelled from the spec: \<^verbatim>\<open>logical.ListResponseWithInfo\<close> of the SDK, which
  is not among the source files. The spec's detailed listing is a sequence of serials
  and a per-serial metadata map: the keys under \<^verbatim>\<open>keys\<close> and, for the keys that
  have one, their entry under \<^verbatim>\<open>key_info\<close>; an empty sequence or map is left
  out.
\<close>

definition ListResponseWithInfo :: "string list \<Rightarrow> (string \<times> val) list \<Rightarrow> response" where
  "ListResponseWithInfo keys keyInfo =
     (let d = (if length keys \<noteq> 0 then [(''keys'', VStrings keys)] else []);
          keyInfoData =
            fold (\<lambda>key acc. case map_of keyInfo key of
                               Some v \<Rightarrow> AList.update key v acc
                             | None \<Rightarrow> acc) keys []
      in \<lparr>Data = (if length keyInfoData > 0
                  then AList.update ''key_info'' (VMap keyInfoData) d else d)\<rparr>)"

definition keyBitsAndType :: "publicKey \<Rightarrow> int \<times> string" where
  "keyBitsAndType k =
     (case k of
        RSAPublicKey byteSize \<Rightarrow> (byteSize * 8, ''rsa'')
      | ECDSAPublicKey bitSize \<Rightarrow> (bitSize, ''ec'')
      | Ed25519PublicKey \<Rightarrow> (256, ''ed25519'')
      | OtherPublicKey \<Rightarrow> (0, ''unknown''))"

definition certInfo :: "certData \<Rightarrow> val" where
  "certInfo c =
     (let dnsNames = (if length (DNSNames c) > 5 then take 5 (DNSNames c) else DNSNames c)
      in case keyBitsAndType (PublicKey c) of
           (keyBits, keyType) \<Rightarrow>
             VMap [(''common_name'', VString (SubjectCommonName c)),
                   (''issuer'', VString (IssuerString c)),
                   (''key_type'', VString keyType),
                   (''key_bits'', VInt keyBits),
                   (''not_after'', VTime (NotAfter c)),
                   (''not_before'', VTime (NotBefore c)),
                   (''dns_names'', VStrings dnsNames)])"

text \<open>
  The loop over the page (lines 344 to 396), with \<^verbatim>\<open>responseKeys\<close> and
  \<^verbatim>\<open>responseInfo\<close> as accumulators.
\<close>

fun detailLoop ::
  "listBackend \<Rightarrow> storage \<Rightarrow> string list \<Rightarrow> string list \<Rightarrow> (string \<times> val) list
     \<Rightarrow> response option \<times> error option" where
  "detailLoop b st [] responseKeys responseInfo =
     (Some (ListResponseWithInfo responseKeys responseInfo), None)"
| "detailLoop b st (e # es) responseKeys responseInfo =
     (case Get st (''certs/'' @ e) of
        Inl err \<Rightarrow> (None, Some err)
      | Inr None \<Rightarrow> (Some (ErrorResponse (''failed to retrieve entry for '' @ e)), None)
      | Inr (Some entry) \<Rightarrow>
          (let d = denormalizeSerial b e in
           case ParseCertificate b (Value entry) of
             Inl err \<Rightarrow>
               (Some (ErrorResponse
                  (''failed to parse certificate for '' @ d @ '': '' @ Error err)), None)
           | Inr c \<Rightarrow>
               detailLoop b st es (responseKeys @ [d])
                 (AList.update d (certInfo c) responseInfo)))"

text \<open>
  The storage the listing reads from: a read-only transaction when the storage offers
  one (its failure to begin is wrapped and returned), the request's storage otherwise.
\<close>

definition listingStorage :: "listRequest \<Rightarrow> error + storage" where
  "listingStorage req =
     (case BeginReadOnlyTx req of
        None \<Rightarrow> Inr (Storage req)
      | Some (Inl err) \<Rightarrow>
          Inl (InternalError (''failed to start read-only transaction: '' @ Error err))
      | Some (Inr readOnlyTxn) \<Rightarrow> Inr readOnlyTxn)"

definition pathFetchCertListDetailed ::
  "listBackend \<Rightarrow> listRequest \<Rightarrow> response option \<times> error option" where
  "pathFetchCertListDetailed b req =
     (let lim = (if limit req \<le> 0 then - 1 else limit req) in
      case listingStorage req of
        Inl err \<Rightarrow> (None, Some err)
      | Inr st \<Rightarrow>
          (case ListPage st ''certs/'' (after req) lim of
             Inl err \<Rightarrow> (None, Some err)
           | Inr entries \<Rightarrow> detailLoop b st entries [] []))"

text \<open>
  An entry of the page that the loop passes: it is read back and its bytes parse.
\<close>

definition entryPasses :: "listBackend \<Rightarrow> storage \<Rightarrow> string \<Rightarrow> bool" where
  "entryPasses b st e =
     (case Get st (''certs/'' @ e) of
        Inr (Some entry) \<Rightarrow>
          (case ParseCertificate b (Value entry) of Inr c \<Rightarrow> True | Inl err \<Rightarrow> False)
      | _ \<Rightarrow> False)"

subsection \<open>Serials, request classes and example data\<close>

text \<open>
  The serial of the two routes \<^verbatim>\<open>cert/(?P<serial>[0-9A-Fa-f-:]+)\<close> and
  \<^verbatim>\<open>cert/(?P<serial>[0-9A-Fa-f-:]+)/raw(/pem)?\<close>: one or more characters, each
  a hexadecimal digit, a hyphen or a colon.
\<close>

definition serialChar :: "char \<Rightarrow> bool" where
  "serialChar c \<longleftrightarrow> c \<in> set ''0123456789ABCDEFabcdef-:''"

definition validSerial :: "string \<Rightarrow> bool" where
  "validSerial s \<longleftrightarrow> s \<noteq> [] \<and> list_all serialChar s"

text \<open>
  The request class the first switch hands to the If-Modified-Since helper: the CA
  class on the CA paths, the CRL or delta CRL class on the CRL paths, and no call on any
  other path.
\<close>

definition gateClass :: "string \<Rightarrow> ifModifiedReqType option" where
  "gateClass p =
     (if isCAPath p then Some ifModifiedCA
      else if isCRLPath p
      then Some (if Contains p ''delta'' then ifModifiedDeltaCRL else ifModifiedCRL)
      else None)"



text \<open>
  The revocation lookup of a serial as the handler performs it: \<open>Some None\<close> when no
  entry is stored, \<open>Some (Some info)\<close> when an entry is stored and decodes, \<open>None\<close>
  when the read or the decoding fails.
\<close>

definition revocationOf :: "backend \<Rightarrow> string \<Rightarrow> revocationInfo option option" where
  "revocationOf b s =
     (case fetchCertBySerial b ''revoked/'' s of
        Inl err \<Rightarrow> None
      | Inr None \<Rightarrow> Some None
      | Inr (Some revokedEntry) \<Rightarrow>
          (case DecodeJSON b revokedEntry of
             Inl err \<Rightarrow> None
           | Inr revInfo \<Rightarrow> Some (Some revInfo)))"




text \<open>
  Example data: a mount with a CA and one more certificate in its chain, one issued
  certificate \<^verbatim>\<open>1a:2b\<close> that was revoked by a record without an issuer, a helper
  that lets every request through, and a logger that emits warnings.
\<close>

definition exampleBackend :: backend where
  "exampleBackend =
     \<lparr>sendNotModifiedResponseIfNecessary = (\<lambda>t r. (False, None, r)),
      fetchCAInfo = Inr \<lparr>CertificateRaw = ''Man'', CAChain = [''abcd'']\<rparr>,
      fetchCertBySerial =
        (\<lambda>p s. if s = ''1a:2b''
                then (if p = ''revoked/'' then Inr (Some \<lparr>Value = ''{}''\<rparr>)
                      else Inr (Some \<lparr>Value = ''abcd''\<rparr>))
                else Inr None),
      DecodeJSON =
        (\<lambda>e. Inr \<lparr>RevocationTime = 1700000000, RevocationTimeUTC = Time 0,
                   CertificateIssuer = []\<rparr>),
      FormatRFC3339Nano = (\<lambda>t. ''2023-11-14T22:13:20Z''),
      legacyCRLPath = ''crl'',
      deltaCRLPath = ''delta-crl'',
      IsWarn = True\<rparr>"

text \<open>
  Example data for the listing: a page of three storage keys, of which the second holds
  bytes that do not parse and the third is no longer stored.
\<close>

definition exampleListBackend :: listBackend where
  "exampleListBackend =
     \<lparr>denormalizeSerial = map (\<lambda>c. if c = CHR ''-'' then CHR '':'' else c),
      ParseCertificate =
        (\<lambda>der. if der = ''abcd''
                then Inr \<lparr>SubjectCommonName = ''example.com'', IssuerString = ''CN=root'',
                          PublicKey = Ed25519PublicKey, NotAfter = Time 20, NotBefore = Time 10,
                          DNSNames = [''example.com'']\<rparr>
                else Inl (InternalError ''x509: malformed certificate''))\<rparr>"

definition exampleStorage :: storage where
  "exampleStorage =
     \<lparr>ListPage = (\<lambda>prefix aft lim. Inr [''1a-2b'', ''3c-4d'', ''5e-6f'']),
      Get = (\<lambda>key. if key = ''certs/1a-2b'' then Inr (Some \<lparr>Value = ''abcd''\<rparr>)
                   else if key = ''certs/3c-4d'' then Inr (Some \<lparr>Value = ''Man''\<rparr>)
                   else Inr None)\<rparr>"

section \<open>The format of the CA chain\<close>

lemma split_nl_nonempty: "split_nl s \<noteq> []"
  by (induction s) (auto split: list.splits)

lemma split_nl_append:
  "split_nl (a @ CHR 0x0A # b) = split_nl a @ split_nl b"
  by (induction a) (auto simp: split_nl_nonempty split: list.splits)

lemma split_nl_single: "CHR 0x0A \<notin> set a \<Longrightarrow> split_nl a = [a]"
  by (induction a) auto

lemma length_encodeStd: "length encodeStd = 64"
  by (simp add: encodeStd_def)

lemma encodeStd_nth: "i < 64 \<Longrightarrow> encodeStd ! i \<in> set encodeStd"
  by (simp add: length_encodeStd)

lemma encodeStd_not_space: "c \<in> set encodeStd \<Longrightarrow> \<not> asciiSpace c"
  by (auto simp: encodeStd_def asciiSpace_def)

lemma base64_chars:
  "c \<in> set (base64_EncodeToString bs) \<Longrightarrow> c \<in> set encodeStd \<or> c = CHR ''=''"
proof (induction bs rule: base64_EncodeToString.induct)
  case 1
  then show ?case by simp
next
  case (2 a)
  have "of_char a < (256::nat)" by (rule nat_of_char_less_256)
  then have "of_char a div 4 < (64::nat)" "(of_char a mod 4) * 16 < (64::nat)" by arith+
  with 2 show ?case by (auto intro: encodeStd_nth)
next
  case (3 a b)
  have "of_char a < (256::nat)" "of_char b < (256::nat)" by (rule nat_of_char_less_256)+
  then have "of_char a div 4 < (64::nat)"
    "(of_char a mod 4) * 16 + of_char b div 16 < (64::nat)"
    "(of_char b mod 16) * 4 < (64::nat)" by arith+
  with 3 show ?case by (auto intro: encodeStd_nth)
next
  case (4 a b c' rest)
  have "of_char a < (256::nat)" "of_char b < (256::nat)" "of_char c' < (256::nat)"
    by (rule nat_of_char_less_256)+
  then have "of_char a div 4 < (64::nat)"
    "(of_char a mod 4) * 16 + of_char b div 16 < (64::nat)"
    "(of_char b mod 16) * 4 + of_char c' div 64 < (64::nat)"
    "of_char c' mod 64 < (64::nat)" by arith+
  with 4 show ?case by (auto intro: encodeStd_nth)
qed

lemma base64_not_space: "c \<in> set (base64_EncodeToString bs) \<Longrightarrow> \<not> asciiSpace c"
  using base64_chars [of c bs] encodeStd_not_space [of c]
  by (auto simp: asciiSpace_def)

lemma encodeStd_ascii: "c \<in> set encodeStd \<Longrightarrow> of_char c < (128::nat)"
  by (auto simp: encodeStd_def)

lemma lineBreaker_chars: "c \<in> set (lineBreaker s) \<Longrightarrow> c \<in> set s \<or> c = CHR 0x0A"
proof (induction s rule: lineBreaker.induct)
  case (1 s)
  show ?case
  proof (cases "s = []")
    case True
    with 1(2) show ?thesis by (simp add: lineBreaker.simps)
  next
    case False
    from 1(2) have "c \<in> set (take pemLineLength s) \<or> c = CHR 0x0A
        \<or> c \<in> set (lineBreaker (drop pemLineLength s))"
      using False by (subst (asm) lineBreaker.simps) auto
    with 1(1) [OF False] show ?thesis
      by (auto dest: in_set_takeD in_set_dropD)
  qed
qed

lemma pem_ascii:
  assumes "\<forall>c \<in> set blockType. of_char c < (128::nat)"
    and "c \<in> set (pem_EncodeToMemory blockType bytes)"
  shows "of_char c < (128::nat)"
proof -
  from assms(2) have "c \<in> set blockType
      \<or> c \<in> set (lineBreaker (base64_EncodeToString bytes))
      \<or> c \<in> set ''-BEGIN END\<newline>''"
    by (auto simp: pem_EncodeToMemory_def)
  then show ?thesis
    using assms(1) lineBreaker_chars [of c "base64_EncodeToString bytes"]
      base64_chars [of c bytes] encodeStd_ascii [of c]
    by auto
qed

lemma lineBreaker_lines:
  "(\<forall>c \<in> set s. \<not> asciiSpace c) \<Longrightarrow> l \<in> set (split_nl (lineBreaker s @ rest))
   \<Longrightarrow> l \<in> set (split_nl rest) \<or> \<not> blank l"
proof (induction s rule: lineBreaker.induct)
  case (1 s)
  show ?case
  proof (cases "s = []")
    case True
    with 1(3) show ?thesis by (simp add: lineBreaker.simps)
  next
    case False
    let ?h = "take pemLineLength s"
    have nosp: "\<forall>c \<in> set ?h. \<not> asciiSpace c"
      using 1(2) by (auto dest: in_set_takeD)
    then have "CHR 0x0A \<notin> set ?h" by (auto simp: asciiSpace_def)
    then have sp: "split_nl ?h = [?h]" by (rule split_nl_single)
    have ne: "?h \<noteq> []" using False by (simp add: pemLineLength_def)
    have eq: "lineBreaker s @ rest = ?h @ CHR 0x0A # (lineBreaker (drop pemLineLength s) @ rest)"
      using False by (subst lineBreaker.simps) simp
    have "l = ?h \<or> l \<in> set (split_nl (lineBreaker (drop pemLineLength s) @ rest))"
      using 1(3) unfolding eq split_nl_append sp by simp
    then show ?thesis
    proof
      assume "l = ?h"
      with ne nosp have "\<not> blank l" by (cases ?h) (auto simp: blank_def)
      then show ?thesis ..
    next
      assume "l \<in> set (split_nl (lineBreaker (drop pemLineLength s) @ rest))"
      moreover have "\<forall>c \<in> set (drop pemLineLength s). \<not> asciiSpace c"
        using 1(2) by (auto dest: in_set_dropD)
      ultimately show ?thesis using 1(1) [OF False] by blast
    qed
  qed
qed

lemma TrimSpace_strip:
  assumes "x \<noteq> []" "\<not> asciiSpace (hd x)" "\<not> asciiSpace (last x)"
    and "\<forall>c \<in> set w1. asciiSpace c" "\<forall>c \<in> set w2. asciiSpace c"
  shows "TrimSpace (w1 @ x @ w2) = x"
proof -
  from assms(1) obtain a x' where x: "x = a # x'" by (cases x) auto
  from assms(1) obtain x'' b where x2: "x = x'' @ [b]" by (cases x rule: rev_cases) auto
  have a: "\<not> asciiSpace a" using assms(2) x by simp
  have b: "\<not> asciiSpace b" using assms(3) x2 by simp
  have 1: "dropWhile asciiSpace (w1 @ x @ w2) = x @ w2"
    using assms(4) a by (simp add: dropWhile_append x)
  have 2: "dropWhile asciiSpace (rev w2 @ rev x) = rev x"
    using assms(5) b by (simp add: dropWhile_append x2)
  show ?thesis by (simp add: TrimSpace_def 1 2)
qed

lemma pem_split: "pem_EncodeToMemory blkType bytes = pemText blkType bytes @ ''\<newline>''"
  by (simp add: pem_EncodeToMemory_def pemText_def)

lemma pemText_ends: "pemText blkType bytes \<noteq> [] \<and> hd (pemText blkType bytes) = CHR ''-''
    \<and> last (pemText blkType bytes) = CHR ''-''"
  by (simp add: pemText_def)

lemma TrimSpace_pem: "TrimSpace (pem_EncodeToMemory blkType bytes) = pemText blkType bytes"
  using TrimSpace_strip [of "pemText blkType bytes" "[]" "''\<newline>''"] pemText_ends [of blkType bytes]
  by (simp add: pem_split asciiSpace_def)

lemma fold_chainStep:
  "fold chainStep cs acc = acc @ concat (map (\<lambda>c. CHR 0x0A # pemText ''CERTIFICATE'' c) cs)"
  by (induction cs arbitrary: acc) (simp_all add: chainStep_def TrimSpace_pem)

lemma concat_Join:
  "concat (map (\<lambda>c. CHR 0x0A # f c) (c # cs)) = CHR 0x0A # Join (map f (c # cs)) ''\<newline>''"
  by (induction cs arbitrary: c) simp_all

lemma Join_ends:
  "xs \<noteq> [] \<Longrightarrow> \<forall>x \<in> set xs. x \<noteq> [] \<and> hd x = d \<and> last x = d
   \<Longrightarrow> Join xs sep \<noteq> [] \<and> hd (Join xs sep) = d \<and> last (Join xs sep) = d"
  by (induction xs sep rule: Join.induct) auto

lemma split_nl_Join:
  "xs \<noteq> [] \<Longrightarrow> split_nl (Join xs ''\<newline>'') = concat (map split_nl xs)"
  by (induction xs "''\<newline>''" rule: Join.induct) (simp_all add: split_nl_append)

lemma buildChain_Join:
  "buildChain rawChain = Join (map (pemText ''CERTIFICATE'') rawChain) ''\<newline>''"
proof (cases rawChain)
  case Nil
  then show ?thesis by (simp add: buildChain_def TrimSpace_def)
next
  case (Cons c cs)
  let ?J = "Join (map (pemText ''CERTIFICATE'') (c # cs)) ''\<newline>''"
  have e: "?J \<noteq> [] \<and> hd ?J = CHR ''-'' \<and> last ?J = CHR ''-''"
    by (rule Join_ends) (auto simp: pemText_ends)
  have "buildChain rawChain = TrimSpace (''\<newline>'' @ ?J @ [])"
    unfolding buildChain_def Cons fold_chainStep concat_Join by simp
  also have "\<dots> = ?J"
    by (rule TrimSpace_strip) (use e in \<open>auto simp: asciiSpace_def\<close>)
  finally show ?thesis by (simp add: Cons)
qed

lemma pemText_lines:
  assumes "l \<in> set (split_nl (pemText ''CERTIFICATE'' c))"
  shows "\<not> blank l"
proof -
  let ?H = "''-----BEGIN CERTIFICATE-----''" and ?F = "''-----END CERTIFICATE-----''"
  have eq: "pemText ''CERTIFICATE'' c
      = ?H @ CHR 0x0A # (lineBreaker (base64_EncodeToString c) @ ?F)"
    by (simp add: pemText_def)
  have H: "split_nl ?H = [?H]" by (rule split_nl_single) simp
  have F: "split_nl ?F = [?F]" by (rule split_nl_single) simp
  from assms have "l = ?H \<or> l \<in> set (split_nl (lineBreaker (base64_EncodeToString c) @ ?F))"
    unfolding eq split_nl_append H by simp
  then show ?thesis
  proof
    assume "l = ?H" then show ?thesis by (simp add: blank_def asciiSpace_def)
  next
    assume "l \<in> set (split_nl (lineBreaker (base64_EncodeToString c) @ ?F))"
    then have "l \<in> set (split_nl ?F) \<or> \<not> blank l"
      by (rule lineBreaker_lines [rotated]) (simp add: base64_not_space)
    then show ?thesis unfolding F by (auto simp: blank_def asciiSpace_def)
  qed
qed

text \<open>The format of the chain text, for a list of certificates of any length.\<close>

lemma buildChain_format:
  "buildChain rawChain
     = Join (map (\<lambda>ca. TrimSpace (pem_EncodeToMemory ''CERTIFICATE'' ca)) rawChain) ''\<newline>''
   \<and> (\<forall>l \<in> set (text_lines (buildChain rawChain)). \<not> blank l)
   \<and> (buildChain rawChain = [] \<or> last (buildChain rawChain) \<noteq> CHR 0x0A)"
proof (intro conjI)
  show "buildChain rawChain
     = Join (map (\<lambda>ca. TrimSpace (pem_EncodeToMemory ''CERTIFICATE'' ca)) rawChain) ''\<newline>''"
    by (simp add: buildChain_Join TrimSpace_pem)
  show "\<forall>l \<in> set (text_lines (buildChain rawChain)). \<not> blank l"
  proof (cases "rawChain = []")
    case True
    then show ?thesis by (simp add: buildChain_Join text_lines_def)
  next
    case False
    then have "split_nl (buildChain rawChain)
        = concat (map split_nl (map (pemText ''CERTIFICATE'') rawChain))"
      by (simp add: buildChain_Join split_nl_Join)
    then show ?thesis by (auto simp: text_lines_def dest: pemText_lines)
  qed
  show "buildChain rawChain = [] \<or> last (buildChain rawChain) \<noteq> CHR 0x0A"
  proof (cases "rawChain = []")
    case True
    then show ?thesis by (simp add: buildChain_Join)
  next
    case False
    then have "last (buildChain rawChain) = CHR ''-''"
      unfolding buildChain_Join using Join_ends [of "map (pemText ''CERTIFICATE'') rawChain" "CHR ''-''"]
      by (simp add: pemText_ends)
    then show ?thesis by simp
  qed
qed



section \<open>Dispatch of the serial-keyed paths\<close>

lemma validSerial_last: "validSerial s \<Longrightarrow> serialChar (last s)"
  by (auto simp: validSerial_def list_all_iff)

lemma validSerial_mem: "validSerial s \<Longrightarrow> c \<in> set s \<Longrightarrow> serialChar c"
  by (auto simp: validSerial_def list_all_iff)

lemma HasSuffix_last:
  "HasSuffix (p @ s) suffix \<Longrightarrow> s \<noteq> [] \<Longrightarrow> suffix \<noteq> [] \<Longrightarrow> last s = last suffix"
proof -
  assume h: "HasSuffix (p @ s) suffix" and s: "s \<noteq> []" and f: "suffix \<noteq> []"
  from h have d: "drop (length (p @ s) - length suffix) (p @ s) = suffix"
    and le: "length suffix \<le> length (p @ s)" by (auto simp: HasSuffix_def)
  from f le have "length (p @ s) - length suffix < length (p @ s)"
    by (cases suffix) auto
  then have "last (drop (length (p @ s) - length suffix) (p @ s)) = last (p @ s)"
    by (rule last_drop)
  with d s show ?thesis by simp
qed

lemma HasSuffix_append: "HasSuffix (p @ suffix) suffix"
  by (simp add: HasSuffix_def)

lemma serial_not_suffix:
  assumes "validSerial s"
  shows "\<not> HasSuffix (''cert/'' @ s) ''/pem''" "\<not> HasSuffix (''cert/'' @ s) ''/raw''"
proof -
  from assms have ne: "s \<noteq> []" by (simp add: validSerial_def)
  show "\<not> HasSuffix (''cert/'' @ s) ''/pem''"
  proof
    assume "HasSuffix (''cert/'' @ s) ''/pem''"
    from HasSuffix_last [OF this ne] have "last s = CHR ''m''" by simp
    with validSerial_last [OF assms] show False by (simp add: serialChar_def)
  qed
  show "\<not> HasSuffix (''cert/'' @ s) ''/raw''"
  proof
    assume "HasSuffix (''cert/'' @ s) ''/raw''"
    from HasSuffix_last [OF this ne] have "last s = CHR ''w''" by simp
    with validSerial_last [OF assms] show False by (simp add: serialChar_def)
  qed
qed

lemma serial_no_letters:
  assumes "validSerial s"
  shows "CHR ''/'' \<notin> set s" "CHR ''r'' \<notin> set s" "CHR ''_'' \<notin> set s" "CHR ''l'' \<notin> set s"
  using validSerial_mem [OF assms] by (auto simp: serialChar_def)

lemma app_eq_lit: "s @ t = u \<Longrightarrow> set s \<subseteq> set u"
  by auto

lemma cert_path_plain:
  assumes "validSerial s" "s \<noteq> ''ca''"
  shows "\<not> isCAPath (''cert/'' @ s)" "\<not> isCRLPath (''cert/'' @ s)"
    "''cert/'' @ s \<noteq> ''ca_chain''" "''cert/'' @ s \<noteq> ''cert/ca_chain''"
  using assms serial_no_letters [OF assms(1)]
  by (auto simp: isCAPath_def isCRLPath_def)

lemma cert_path_raw:
  assumes "validSerial s" "s \<noteq> ''ca''"
  shows "\<not> isCAPath (''cert/'' @ s @ ''/raw'')" "\<not> isCRLPath (''cert/'' @ s @ ''/raw'')"
    "''cert/'' @ s @ ''/raw'' \<noteq> ''ca_chain''" "''cert/'' @ s @ ''/raw'' \<noteq> ''cert/ca_chain''"
  using assms serial_no_letters [OF assms(1)]
  by (auto simp: isCAPath_def isCRLPath_def dest!: app_eq_lit)


lemma cert_path_rawpem:
  assumes "validSerial s" "s \<noteq> ''ca''"
  shows "\<not> isCAPath (''cert/'' @ s @ ''/raw/pem'')" "\<not> isCRLPath (''cert/'' @ s @ ''/raw/pem'')"
    "''cert/'' @ s @ ''/raw/pem'' \<noteq> ''ca_chain''"
    "''cert/'' @ s @ ''/raw/pem'' \<noteq> ''cert/ca_chain''"
  using assms serial_no_letters [OF assms(1)]
  by (auto simp: isCAPath_def isCRLPath_def dest!: app_eq_lit)

lemma suffix_facts:
  "HasSuffix (''cert/'' @ s @ ''/raw'') ''/raw''"
  "\<not> HasSuffix (''cert/'' @ s @ ''/raw'') ''/pem''"
  "HasSuffix (''cert/'' @ s @ ''/raw/pem'') ''/pem''"
proof -
  show "HasSuffix (''cert/'' @ s @ ''/raw'') ''/raw''"
    using HasSuffix_append [of "''cert/'' @ s" "''/raw''"] by simp
  show "HasSuffix (''cert/'' @ s @ ''/raw/pem'') ''/pem''"
    using HasSuffix_append [of "''cert/'' @ s @ ''/raw''" "''/pem''"] by simp
  show "\<not> HasSuffix (''cert/'' @ s @ ''/raw'') ''/pem''"
  proof
    assume "HasSuffix (''cert/'' @ s @ ''/raw'') ''/pem''"
    then have "HasSuffix ((''cert/'' @ s) @ ''/raw'') ''/pem''" by simp
    from HasSuffix_last [OF this] show False by simp
  qed
qed

lemma validSerial_not_special:
  "validSerial s \<Longrightarrow> length s \<noteq> 0 \<and> s \<noteq> ''ca_chain''"
  using serial_no_letters(3) [of s] by (auto simp: validSerial_def)

lemma resolve_cert:
  assumes "validSerial s" "s \<noteq> ''ca''" "Path req = ''cert/'' @ s" "serial req = s"
  shows "resolve b req = resolveCert b (Path req) s ''CERTIFICATE'' init_locals"
  using assms cert_path_plain [OF assms(1,2)] serial_not_suffix [OF assms(1)]
    validSerial_not_special [OF assms(1)]
  by (simp add: resolve_def dispatch_def)

lemma resolve_raw:
  assumes "validSerial s" "s \<noteq> ''ca''" "Path req = ''cert/'' @ s @ ''/raw''" "serial req = s"
  shows "resolve b req = resolveCert b (Path req) s []
           (init_locals\<lparr>contentType := ''application/pkix-cert''\<rparr>)"
  using assms cert_path_raw [OF assms(1,2)] suffix_facts [of s]
    validSerial_not_special [OF assms(1)]
  by (simp add: resolve_def dispatch_def)

lemma resolve_rawpem:
  assumes "validSerial s" "s \<noteq> ''ca''" "Path req = ''cert/'' @ s @ ''/raw/pem''" "serial req = s"
  shows "resolve b req = resolveCert b (Path req) s ''CERTIFICATE''
           (init_locals\<lparr>contentType := ''application/pem-certificate-chain''\<rparr>)"
  using assms cert_path_rawpem [OF assms(1,2)] suffix_facts [of s]
    validSerial_not_special [OF assms(1)]
  by (simp add: resolve_def dispatch_def)

section \<open>Certificates by serial\<close>

text \<open>
  C6: on each of the three serial-keyed paths, a serial of the route (other than the CA's
  name) for which the certificate lookup finds no entry gives an empty result and no
  error: no response at all on the structured path, and on the two raw paths a raw
  response with an empty body (status 204). Nothing is logged.
\<close>

theorem absent_serial_empty_result:
  assumes "validSerial s" and "s \<noteq> ''ca''" and "serial req = s"
    and "Path req = ''cert/'' @ s \<or> Path req = ''cert/'' @ s @ ''/raw''
         \<or> Path req = ''cert/'' @ s @ ''/raw/pem''"
    and "fetchCertBySerial b (Path req) s = Inr None"
  shows "pathFetchRead b req =
     (if Path req = ''cert/'' @ s then None
      else if Path req = ''cert/'' @ s @ ''/raw''
      then Some \<lparr>Data = [(HTTPContentType, VString ''application/pkix-cert''),
                         (HTTPRawBody, VBytes []), (HTTPStatusCode, VInt 204)]\<rparr>
      else Some \<lparr>Data = [(HTTPContentType, VString ''application/pem-certificate-chain''),
                         (HTTPRawBody, VBytes []), (HTTPStatusCode, VInt 204)]\<rparr>,
      None, [])"
proof -
  have r: "resolveCert b (Path req) s pt l = Reply (l\<lparr>response := None\<rparr>)" for pt l
    using assms(5) by (simp add: resolveCert_def)
  from assms(4) consider
    (plain) "Path req = ''cert/'' @ s" |
    (raw) "Path req = ''cert/'' @ s @ ''/raw''" |
    (rawpem) "Path req = ''cert/'' @ s @ ''/raw/pem''" by blast
  then show ?thesis
  proof cases
    case plain
    then show ?thesis
      using resolve_cert [OF assms(1,2) plain assms(3), of b] r
      by (simp add: pathFetchRead_def reply_def init_locals_def)
  next
    case raw
    then show ?thesis
      using resolve_raw [OF assms(1,2) raw assms(3), of b] r
      by (simp add: pathFetchRead_def reply_def init_locals_def rawResponse_def)
  next
    case rawpem
    then show ?thesis
      using resolve_rawpem [OF assms(1,2) rawpem assms(3), of b] r
      by (simp add: pathFetchRead_def reply_def init_locals_def rawResponse_def)
  qed
qed

theorem absent_serial_empty_result_witness:
  "pathFetchRead exampleBackend \<lparr>Path = ''cert/3c:4d'', serial = ''3c:4d''\<rparr> = (None, None, [])
   \<and> pathFetchRead exampleBackend \<lparr>Path = ''cert/3c:4d/raw'', serial = ''3c:4d''\<rparr>
       = (Some \<lparr>Data = [(HTTPContentType, VString ''application/pkix-cert''),
                         (HTTPRawBody, VBytes []), (HTTPStatusCode, VInt 204)]\<rparr>, None, [])
   \<and> pathFetchRead exampleBackend \<lparr>Path = ''cert/3c:4d/raw/pem'', serial = ''3c:4d''\<rparr>
       = (Some \<lparr>Data = [(HTTPContentType, VString ''application/pem-certificate-chain''),
                         (HTTPRawBody, VBytes []), (HTTPStatusCode, VInt 204)]\<rparr>, None, [])"
proof -
  have v: "validSerial ''3c:4d''" by (simp add: validSerial_def serialChar_def)
  have n: "''3c:4d'' \<noteq> ''ca''" by simp
  have f: "fetchCertBySerial exampleBackend p ''3c:4d'' = Inr None" for p
    by (simp add: exampleBackend_def)
  show ?thesis
    using absent_serial_empty_result
            [OF v n, of "\<lparr>Path = ''cert/3c:4d'', serial = ''3c:4d''\<rparr>" exampleBackend]
          absent_serial_empty_result
            [OF v n, of "\<lparr>Path = ''cert/3c:4d/raw'', serial = ''3c:4d''\<rparr>" exampleBackend]
          absent_serial_empty_result
            [OF v n, of "\<lparr>Path = ''cert/3c:4d/raw/pem'', serial = ''3c:4d''\<rparr>" exampleBackend]
          f
    by simp
qed

text \<open>
  C8: on each of the three serial-keyed paths, the raw ones included, when the
  certificate is found and a revocation entry is found for the serial whose decoding
  fails, the handler returns at once: an error response whose text names the serial,
  no error and no raw response.
\<close>

theorem revocation_decode_failure_returns:
  assumes "validSerial s" and "s \<noteq> ''ca''" and "serial req = s"
    and "Path req = ''cert/'' @ s \<or> Path req = ''cert/'' @ s @ ''/raw''
         \<or> Path req = ''cert/'' @ s @ ''/raw/pem''"
    and "fetchCertBySerial b (Path req) s = Inr (Some certEntry)"
    and "fetchCertBySerial b ''revoked/'' s = Inr (Some revokedEntry)"
    and "DecodeJSON b revokedEntry = Inl err"
  shows "pathFetchRead b req
    = (Some (ErrorResponse
         (''Error decoding revocation entry for serial '' @ s @ '': '' @ Error err)), None, [])"
proof -
  have r: "resolveCert b (Path req) s pt l
      = Return (Some (ErrorResponse (decodeErrorText s err))) None" for pt l
    using assms(5,6,7) by (simp add: resolveCert_def)
  from assms(4) have "resolve b req
      = Return (Some (ErrorResponse (decodeErrorText s err))) None"
    using resolve_cert [OF assms(1,2) _ assms(3), of b]
      resolve_raw [OF assms(1,2) _ assms(3), of b]
      resolve_rawpem [OF assms(1,2) _ assms(3), of b] r
    by auto
  then show ?thesis by (simp add: pathFetchRead_def decodeErrorText_def)
qed

theorem revocation_decode_failure_returns_witness:
  "pathFetchRead
     (exampleBackend\<lparr>DecodeJSON := (\<lambda>e. Inl (InternalError ''unexpected end of JSON input''))\<rparr>)
     \<lparr>Path = ''cert/1a:2b/raw/pem'', serial = ''1a:2b''\<rparr>
   = (Some (ErrorResponse
        ''Error decoding revocation entry for serial 1a:2b: unexpected end of JSON input''),
      None, [])"
proof -
  have v: "validSerial ''1a:2b''" by (simp add: validSerial_def serialChar_def)
  have n: "''1a:2b'' \<noteq> ''ca''" by simp
  show ?thesis
    using revocation_decode_failure_returns
            [OF v n, of "\<lparr>Path = ''cert/1a:2b/raw/pem'', serial = ''1a:2b''\<rparr>"
               "exampleBackend\<lparr>DecodeJSON :=
                  (\<lambda>e. Inl (InternalError ''unexpected end of JSON input''))\<rparr>"
               "\<lparr>Value = ''abcd''\<rparr>" "\<lparr>Value = ''{}''\<rparr>"
               "InternalError ''unexpected end of JSON input''"]
    by (simp add: exampleBackend_def)
qed

section \<open>The detailed listing\<close>

text \<open>
  While the entries of the page are read back and parse, the loop goes on to the rest of
  the page, whatever it has accumulated.
\<close>

lemma entryPasses_elim:
  assumes "entryPasses b st e"
  obtains entry c where "Get st (''certs/'' @ e) = Inr (Some entry)"
    and "ParseCertificate b (Value entry) = Inr c"
proof (cases "Get st (''certs/'' @ e)")
  case (Inl err)
  with assms show ?thesis by (simp add: entryPasses_def)
next
  case (Inr found)
  show ?thesis
  proof (cases found)
    case None
    with Inr assms show ?thesis by (simp add: entryPasses_def)
  next
    case (Some entry)
    show ?thesis
    proof (cases "ParseCertificate b (Value entry)")
      case (Inl err)
      with Inr Some assms show ?thesis by (simp add: entryPasses_def)
    next
      case inr: (Inr c)
      with Inr Some that show ?thesis by simp
    qed
  qed
qed

lemma detailLoop_passes:
  "list_all (entryPasses b st) pre
   \<Longrightarrow> \<exists>keys' info'. detailLoop b st (pre @ rest) keys info = detailLoop b st rest keys' info'"
proof (induction pre arbitrary: keys info)
  case Nil
  show ?case by auto
next
  case (Cons e es)
  from Cons.prems have p: "entryPasses b st e" and ps: "list_all (entryPasses b st) es"
    by simp_all
  from p obtain entry c where g: "Get st (''certs/'' @ e) = Inr (Some entry)"
    and c: "ParseCertificate b (Value entry) = Inr c"
    by (rule entryPasses_elim)
  have "detailLoop b st ((e # es) @ rest) keys info
      = detailLoop b st (es @ rest) (keys @ [denormalizeSerial b e])
          (AList.update (denormalizeSerial b e) (certInfo c) info)"
    using g c by (simp add: Let_def)
  with Cons.IH [OF ps] show ?case by simp
qed

lemma listing_page:
  assumes "listingStorage req = Inr st"
    and "ListPage st ''certs/'' (after req) (if limit req \<le> 0 then - 1 else limit req)
           = Inr entries"
  shows "pathFetchCertListDetailed b req = detailLoop b st entries [] []"
  using assms by (simp add: pathFetchCertListDetailed_def)

text \<open>
  C7: when the loop reaches an entry of the page whose stored bytes do not parse (every
  entry before it was read back and parsed), the whole listing is an error response and
  nothing else: its only data is the error text, which names the serial in display form
  and the parse error. No keys and no metadata of the entries before it are returned.
\<close>

theorem listing_parse_failure_aborts:
  assumes "listingStorage req = Inr st"
    and "ListPage st ''certs/'' (after req) (if limit req \<le> 0 then - 1 else limit req)
           = Inr (pre @ k # post)"
    and "list_all (entryPasses b st) pre"
    and "Get st (''certs/'' @ k) = Inr (Some entry)"
    and "ParseCertificate b (Value entry) = Inl err"
  shows "pathFetchCertListDetailed b req
    = (Some \<lparr>Data = [(''error'', VString (''failed to parse certificate for ''
                @ denormalizeSerial b k @ '': '' @ Error err))]\<rparr>, None)"
proof -
  from detailLoop_passes [OF assms(3), of "k # post" "[]" "[]"]
  obtain keys' info' where
    "detailLoop b st (pre @ k # post) [] [] = detailLoop b st (k # post) keys' info'"
    by blast
  then show ?thesis
    using assms(4,5) listing_page [OF assms(1,2), of b]
    by (simp add: ErrorResponse_def Let_def)
qed

theorem listing_parse_failure_aborts_witness:
  "pathFetchCertListDetailed exampleListBackend
     \<lparr>Storage = exampleStorage, BeginReadOnlyTx = None, after = [], limit = 0\<rparr>
   = (Some \<lparr>Data = [(''error'', VString
        ''failed to parse certificate for 3c:4d: x509: malformed certificate'')]\<rparr>, None)"
proof -
  let ?req = "\<lparr>Storage = exampleStorage, BeginReadOnlyTx = None, after = [], limit = 0\<rparr>"
  have 1: "listingStorage ?req = Inr exampleStorage" by (simp add: listingStorage_def)
  have 2: "ListPage exampleStorage ''certs/'' (after ?req)
             (if limit ?req \<le> 0 then - 1 else limit ?req) = Inr ([''1a-2b''] @ ''3c-4d'' # [''5e-6f''])"
    by (simp add: exampleStorage_def)
  have 3: "list_all (entryPasses exampleListBackend exampleStorage) [''1a-2b'']"
    by (simp add: entryPasses_def exampleStorage_def exampleListBackend_def)
  have 4: "Get exampleStorage (''certs/'' @ ''3c-4d'') = Inr (Some \<lparr>Value = ''Man''\<rparr>)"
    by (simp add: exampleStorage_def)
  have 5: "ParseCertificate exampleListBackend (Value \<lparr>Value = ''Man''\<rparr>)
             = Inl (InternalError ''x509: malformed certificate'')"
    by (simp add: exampleListBackend_def)
  show ?thesis
    using listing_parse_failure_aborts [OF 1 2 3 4 5]
    by (simp add: exampleListBackend_def)
qed

text \<open>
  C9: when the loop reaches a key of the page that has no stored entry any more (every
  entry before it was read back and parsed), the whole listing is the error response
  \<^verbatim>\<open>failed to retrieve entry for\<close> followed by the key as the page gave it, and
  nothing else: the entry is not skipped and no keys or metadata are returned.
\<close>

theorem listing_missing_entry_aborts:
  assumes "listingStorage req = Inr st"
    and "ListPage st ''certs/'' (after req) (if limit req \<le> 0 then - 1 else limit req)
           = Inr (pre @ k # post)"
    and "list_all (entryPasses b st) pre"
    and "Get st (''certs/'' @ k) = Inr None"
  shows "pathFetchCertListDetailed b req
    = (Some \<lparr>Data = [(''error'', VString (''failed to retrieve entry for '' @ k))]\<rparr>, None)"
proof -
  from detailLoop_passes [OF assms(3), of "k # post" "[]" "[]"]
  obtain keys' info' where
    "detailLoop b st (pre @ k # post) [] [] = detailLoop b st (k # post) keys' info'"
    by blast
  then show ?thesis
    using assms(4) listing_page [OF assms(1,2), of b] by (simp add: ErrorResponse_def)
qed

theorem listing_missing_entry_aborts_witness:
  "pathFetchCertListDetailed exampleListBackend
     \<lparr>Storage = exampleStorage\<lparr>Get := (\<lambda>key. if key = ''certs/1a-2b''
                                                then Inr (Some \<lparr>Value = ''abcd''\<rparr>) else Inr None)\<rparr>,
      BeginReadOnlyTx = None, after = [], limit = 2\<rparr>
   = (Some \<lparr>Data = [(''error'', VString ''failed to retrieve entry for 3c-4d'')]\<rparr>, None)"
proof -
  let ?st = "exampleStorage\<lparr>Get := (\<lambda>key. if key = ''certs/1a-2b''
                then Inr (Some \<lparr>Value = ''abcd''\<rparr>) else Inr None)\<rparr>"
  let ?req = "\<lparr>Storage = ?st, BeginReadOnlyTx = None, after = [], limit = 2\<rparr>"
  have 1: "listingStorage ?req = Inr ?st" by (simp add: listingStorage_def)
  have 2: "ListPage ?st ''certs/'' (after ?req)
             (if limit ?req \<le> 0 then - 1 else limit ?req) = Inr ([''1a-2b''] @ ''3c-4d'' # [''5e-6f''])"
    by (simp add: exampleStorage_def)
  have 3: "list_all (entryPasses exampleListBackend ?st) [''1a-2b'']"
    by (simp add: entryPasses_def exampleStorage_def exampleListBackend_def)
  have 4: "Get ?st (''certs/'' @ ''3c-4d'') = Inr None"
    by (simp add: exampleStorage_def)
  show ?thesis
    using listing_missing_entry_aborts [OF 1 2 3 4]
    by simp
qed

section \<open>The If-Modified-Since helper and the raw responses\<close>

lemma dispatch_gate_error:
  assumes "gateClass (Path req) = Some t"
    and "sendNotModifiedResponseIfNecessary b t \<lparr>Data = []\<rparr> = (ret, Some e, resp)"
  shows "dispatch b req = GotoReply (init_locals\<lparr>response := Some resp, retErr := Some e\<rparr>)"
proof (cases "isCAPath (Path req)")
  case True
  with assms(1) have "t = ifModifiedCA" by (simp add: gateClass_def)
  with True assms(2) show ?thesis by (simp add: dispatch_def)
next
  case False
  with assms(1) have crl: "isCRLPath (Path req)"
    and t: "t = (if Contains (Path req) ''delta'' then ifModifiedDeltaCRL else ifModifiedCRL)"
    by (simp_all add: gateClass_def split: if_splits)
  from crl have "Path req \<noteq> ''ca_chain''" "Path req \<noteq> ''cert/ca_chain''"
    by (auto simp: isCRLPath_def)
  with False crl t assms(2) show ?thesis by (simp add: dispatch_def Let_def)
qed

text \<open>
  C1, as the code has it: on every CA, CRL and delta CRL path, when the If-Modified-Since
  helper returns an error, the handler does not go on to resolve the resource: it
  returns no response and that error, and logs nothing.
\<close>

theorem gate_error_rejects_request:
  assumes "gateClass (Path req) = Some t"
    and "sendNotModifiedResponseIfNecessary b t \<lparr>Data = []\<rparr> = (ret, Some e, resp)"
  shows "pathFetchRead b req = (None, Some e, [])"
  using dispatch_gate_error [OF assms]
  by (simp add: pathFetchRead_def resolve_def reply_def init_locals_def)

theorem gate_error_rejects_request_witness:
  "pathFetchRead
     (exampleBackend\<lparr>sendNotModifiedResponseIfNecessary :=
        (\<lambda>t r. (False, Some (InternalError ''storage: read failed''), r))\<rparr>)
     \<lparr>Path = ''crl/delta/pem'', serial = []\<rparr>
   = (None, Some (InternalError ''storage: read failed''), [])"
proof -
  have c: "gateClass (Path \<lparr>Path = ''crl/delta/pem'', serial = []\<rparr>) = Some ifModifiedDeltaCRL"
    by (simp add: gateClass_def isCAPath_def isCRLPath_def)
  show ?thesis
    using c gate_error_rejects_request
      [where req = "\<lparr>Path = ''crl/delta/pem'', serial = []\<rparr>" and t = ifModifiedDeltaCRL
         and ret = False and e = "InternalError ''storage: read failed''"
         and resp = "\<lparr>Data = []\<rparr>"
         and b = "exampleBackend\<lparr>sendNotModifiedResponseIfNecessary :=
                    (\<lambda>t r. (False, Some (InternalError ''storage: read failed''), r))\<rparr>"]
    by simp
qed

text \<open>
  The claim as the spec states it fails: with a CA configured, a read of \<^verbatim>\<open>ca\<close>
  whose helper call fails is answered with that error and no response, while the same
  read with a helper that lets it through returns the certificate.
\<close>

theorem gate_fail_open_counterexample:
  "pathFetchRead
     (exampleBackend\<lparr>sendNotModifiedResponseIfNecessary :=
        (\<lambda>t r. (False, Some (InternalError ''storage: read failed''), r))\<rparr>)
     \<lparr>Path = ''ca'', serial = []\<rparr>
   = (None, Some (InternalError ''storage: read failed''), [])
   \<and> pathFetchRead exampleBackend \<lparr>Path = ''ca'', serial = []\<rparr>
   = (Some \<lparr>Data = [(HTTPContentType, VString ''application/pkix-cert''),
                     (HTTPRawBody, VBytes ''Man''), (HTTPStatusCode, VInt 200)]\<rparr>, None, [])"
  by (simp add: pathFetchRead_def resolve_def dispatch_def isCAPath_def resolveCA_def
      reply_def init_locals_def exampleBackend_def rawResponse_def encodeIfPem_def)





















section \<open>The structured responses\<close>

lemma resolveCert_found:
  assumes "fetchCertBySerial b p s = Inr (Some certEntry)" and "revocationOf b s = Some found"
  shows "resolveCert b p s pemType l =
     Reply (case found of
        None \<Rightarrow> l\<lparr>certificate := encodeIfPem pemType (Value certEntry)\<rparr>
      | Some revInfo \<Rightarrow>
          l\<lparr>certificate := encodeIfPem pemType (Value certEntry),
            revocationTime := RevocationTime revInfo,
            revocationIssuerId := CertificateIssuer revInfo,
            revocationTimeRfc3339 :=
              (if \<not> IsZero (RevocationTimeUTC revInfo)
               then FormatRFC3339Nano b (RevocationTimeUTC revInfo) else [])\<rparr>)"
proof (cases "fetchCertBySerial b ''revoked/'' s")
  case (Inl err)
  with assms(2) show ?thesis by (simp add: revocationOf_def)
next
  case (Inr entry)
  show ?thesis
  proof (cases entry)
    case None
    with Inr assms show ?thesis by (auto simp: revocationOf_def resolveCert_def)
  next
    case (Some revokedEntry)
    show ?thesis
    proof (cases "DecodeJSON b revokedEntry")
      case (Inl err)
      with Inr Some assms(2) show ?thesis by (simp add: revocationOf_def)
    next
      case decoded: (Inr revInfo)
      with Inr Some assms show ?thesis by (auto simp: revocationOf_def resolveCert_def)
    qed
  qed
qed

lemma pem_abcd:
  "TrimSpace (pem_EncodeToMemory ''CERTIFICATE'' ''abcd'')
   = ''-----BEGIN CERTIFICATE-----\<newline>YWJjZA==\<newline>-----END CERTIFICATE-----''"
  by code_simp

text \<open>
  C2, as the code has it: for a stored certificate with a serial of the route (other
  than the CA's name) whose revocation lookup succeeds (no entry, or an entry that
  decodes), the structured read of \<^verbatim>\<open>cert/<serial>\<close> returns the certificate as
  PEM text whether or not a revocation entry exists. \<^verbatim>\<open>revocation_time\<close> is the
  time the entry records (0 without an entry) and \<^verbatim>\<open>issuer_id\<close> is present exactly
  when an entry exists and records a non-empty issuer, which is then its value. So a
  non-zero time or a present issuer implies an entry, but an entry does not imply either.
\<close>

theorem revoked_certificate_structured_read:
  assumes "validSerial s" and "s \<noteq> ''ca''"
    and "Path req = ''cert/'' @ s" and "serial req = s"
    and "fetchCertBySerial b (Path req) s = Inr (Some certEntry)"
    and "revocationOf b s = Some found"
  shows "pathFetchRead b req =
    (Some \<lparr>Data =
       [(''certificate'',
           VString (TrimSpace (pem_EncodeToMemory ''CERTIFICATE'' (Value certEntry)))),
        (''revocation_time'',
           VInt64 (case found of None \<Rightarrow> 0 | Some revInfo \<Rightarrow> RevocationTime revInfo)),
        (''revocation_time_rfc3339'',
           VString (case found of
                      None \<Rightarrow> []
                    | Some revInfo \<Rightarrow>
                        if IsZero (RevocationTimeUTC revInfo) then []
                        else FormatRFC3339Nano b (RevocationTimeUTC revInfo)))]
       @ (case found of
            None \<Rightarrow> []
          | Some revInfo \<Rightarrow>
              if CertificateIssuer revInfo = [] then []
              else [(''issuer_id'', VString (CertificateIssuer revInfo))])\<rparr>,
     None, [])"
proof -
  note r = resolve_cert [OF assms(1-4), of b]
    resolveCert_found [OF assms(5,6), of "''CERTIFICATE''" init_locals]
  show ?thesis
  proof (cases found)
    case None
    with r show ?thesis
      by (simp add: pathFetchRead_def reply_def init_locals_def IsError_def
          structuredData_def encodeIfPem_def)
  next
    case (Some revInfo)
    with r show ?thesis
      by (simp add: pathFetchRead_def reply_def init_locals_def IsError_def
          structuredData_def encodeIfPem_def)
  qed
qed

theorem revoked_certificate_structured_read_witness:
  "pathFetchRead
     (exampleBackend\<lparr>DecodeJSON :=
        (\<lambda>e. Inr \<lparr>RevocationTime = 1700000000, RevocationTimeUTC = Time 1,
                   CertificateIssuer = ''issuer-1''\<rparr>)\<rparr>)
     \<lparr>Path = ''cert/1a:2b'', serial = ''1a:2b''\<rparr>
   = (Some \<lparr>Data =
        [(''certificate'',
            VString ''-----BEGIN CERTIFICATE-----\<newline>YWJjZA==\<newline>-----END CERTIFICATE-----''),
         (''revocation_time'', VInt64 1700000000),
         (''revocation_time_rfc3339'', VString ''2023-11-14T22:13:20Z''),
         (''issuer_id'', VString ''issuer-1'')]\<rparr>, None, [])"
proof -
  let ?b = "exampleBackend\<lparr>DecodeJSON :=
        (\<lambda>e. Inr \<lparr>RevocationTime = 1700000000, RevocationTimeUTC = Time 1,
                   CertificateIssuer = ''issuer-1''\<rparr>)\<rparr>"
  let ?req = "\<lparr>Path = ''cert/1a:2b'', serial = ''1a:2b''\<rparr>"
  have v: "validSerial ''1a:2b''" by (simp add: validSerial_def serialChar_def)
  have n: "''1a:2b'' \<noteq> ''ca''" by simp
  have p: "Path ?req = ''cert/'' @ ''1a:2b''" by simp
  have s: "serial ?req = ''1a:2b''" by simp
  have f: "fetchCertBySerial ?b (Path ?req) ''1a:2b'' = Inr (Some \<lparr>Value = ''abcd''\<rparr>)"
    by (simp add: exampleBackend_def)
  have q: "revocationOf ?b ''1a:2b''
      = Some (Some \<lparr>RevocationTime = 1700000000, RevocationTimeUTC = Time 1,
                     CertificateIssuer = ''issuer-1''\<rparr>)"
    by (simp add: revocationOf_def exampleBackend_def)
  show ?thesis
    using revoked_certificate_structured_read [OF v n p s f q]
    by (simp add: pem_abcd exampleBackend_def)
qed

text \<open>
  The claim as the spec states it fails in the direction from the entry to the fields:
  the certificate \<^verbatim>\<open>1a:2b\<close> of the example has a revocation entry, which records
  no issuer, and its structured response has no \<^verbatim>\<open>issuer_id\<close> key. And when the
  entry does not decode, the certificate is not returned at all.
\<close>

theorem revocation_fields_counterexample:
  "fetchCertBySerial exampleBackend ''revoked/'' ''1a:2b'' = Inr (Some \<lparr>Value = ''{}''\<rparr>)
   \<and> pathFetchRead exampleBackend \<lparr>Path = ''cert/1a:2b'', serial = ''1a:2b''\<rparr>
   = (Some \<lparr>Data =
        [(''certificate'',
            VString ''-----BEGIN CERTIFICATE-----\<newline>YWJjZA==\<newline>-----END CERTIFICATE-----''),
         (''revocation_time'', VInt64 1700000000),
         (''revocation_time_rfc3339'', VString [])]\<rparr>, None, [])
   \<and> pathFetchRead
       (exampleBackend\<lparr>DecodeJSON := (\<lambda>e. Inl (InternalError ''unexpected end of JSON input''))\<rparr>)
       \<lparr>Path = ''cert/1a:2b'', serial = ''1a:2b''\<rparr>
   = (Some \<lparr>Data = [(''error'', VString
        ''Error decoding revocation entry for serial 1a:2b: unexpected end of JSON input'')]\<rparr>,
      None, [])"
proof -
  have d: "dispatch b \<lparr>Path = ''cert/1a:2b'', serial = ''1a:2b''\<rparr>
      = Dispatched ''1a:2b'' ''CERTIFICATE'' init_locals" for b
    by (simp add: dispatch_def isCAPath_def isCRLPath_def HasSuffix_def)
  show ?thesis
    by (simp add: pathFetchRead_def resolve_def d resolveCert_def reply_def init_locals_def
        IsError_def structuredData_def encodeIfPem_def pem_abcd exampleBackend_def
        ErrorResponse_def decodeErrorText_def)
qed

lemma GetFullChain_nonempty: "GetFullChain ca \<noteq> []"
  by (auto simp: GetFullChain_def split: list.splits)

lemma buildChain_nonempty: "rawChain \<noteq> [] \<Longrightarrow> buildChain rawChain \<noteq> []"
  unfolding buildChain_Join
  using Join_ends [of "map (pemText ''CERTIFICATE'') rawChain" "CHR ''-''" "''\<newline>''"]
  by (simp add: pemText_ends)

lemma resolve_chain:
  assumes "fetchCAInfo b = Inr ca"
    and "Path req = ''ca_chain'' \<or> Path req = ''cert/ca_chain''"
  shows "resolve b req
      = Reply (init_locals\<lparr>contentType :=
                   (if Path req = ''ca_chain'' then ''application/pkix-cert'' else []),
                 fullChain := buildChain (GetFullChain ca),
                 certificate := buildChain (GetFullChain ca)\<rparr>)"
  using assms(2)
proof
  assume "Path req = ''ca_chain''"
  then show ?thesis
    using assms(1) by (simp add: resolve_def dispatch_def isCAPath_def resolveCA_def Let_def)
next
  assume "Path req = ''cert/ca_chain''"
  then show ?thesis
    using assms(1)
    by (simp add: resolve_def dispatch_def isCAPath_def resolveCA_def Let_def init_locals_def)
qed

text \<open>
  C4: on a mount whose CA lookup succeeds, with a chain of any length behind the CA
  certificate (none, one or more), the handler's chain output is the text the loop
  builds: the body of the raw read of \<^verbatim>\<open>ca_chain\<close> and both fields of the
  structured read of \<^verbatim>\<open>cert/ca_chain\<close>. That text is the trimmed PEM blocks of type
  CERTIFICATE of the certificates of the full chain, joined by single line feeds; none
  of its lines is blank, and it does not end with a line feed.
\<close>

theorem ca_chain_format:
  assumes "fetchCAInfo b = Inr ca"
    and "Path req = ''ca_chain'' \<or> Path req = ''cert/ca_chain''"
  shows "pathFetchRead b req =
     (if Path req = ''ca_chain''
      then (Some \<lparr>Data = [(HTTPContentType, VString ''application/pkix-cert''),
                          (HTTPRawBody, VBytes (buildChain (GetFullChain ca))),
                          (HTTPStatusCode, VInt 200)]\<rparr>, None, [])
      else (Some \<lparr>Data = [(''certificate'', VString (buildChain (GetFullChain ca))),
                          (''revocation_time'', VInt64 0),
                          (''revocation_time_rfc3339'', VString []),
                          (''ca_chain'', VString (buildChain (GetFullChain ca)))]\<rparr>, None, []))
   \<and> buildChain (GetFullChain ca)
       = Join (map (\<lambda>c. TrimSpace (pem_EncodeToMemory ''CERTIFICATE'' c)) (GetFullChain ca))
           ''\<newline>''
   \<and> (\<forall>l \<in> set (text_lines (buildChain (GetFullChain ca))). \<not> blank l)
   \<and> buildChain (GetFullChain ca) \<noteq> []
   \<and> last (buildChain (GetFullChain ca)) \<noteq> CHR 0x0A"
proof -
  note ne = buildChain_nonempty [OF GetFullChain_nonempty [of ca]]
  note fmt = buildChain_format [of "GetFullChain ca"]
  have "pathFetchRead b req =
     (if Path req = ''ca_chain''
      then (Some \<lparr>Data = [(HTTPContentType, VString ''application/pkix-cert''),
                          (HTTPRawBody, VBytes (buildChain (GetFullChain ca))),
                          (HTTPStatusCode, VInt 200)]\<rparr>, None, [])
      else (Some \<lparr>Data = [(''certificate'', VString (buildChain (GetFullChain ca))),
                          (''revocation_time'', VInt64 0),
                          (''revocation_time_rfc3339'', VString []),
                          (''ca_chain'', VString (buildChain (GetFullChain ca)))]\<rparr>, None, []))"
    using ne
    by (simp add: pathFetchRead_def resolve_chain [OF assms] reply_def init_locals_def
        rawResponse_def IsError_def structuredData_def)
  with ne fmt show ?thesis by blast
qed

lemma chain_Man_abcd:
  "buildChain [''Man'', ''abcd'']
   = ''-----BEGIN CERTIFICATE-----\<newline>TWFu\<newline>-----END CERTIFICATE-----\<newline>-----BEGIN CERTIFICATE-----\<newline>YWJjZA==\<newline>-----END CERTIFICATE-----''"
  by code_simp

theorem ca_chain_format_witness:
  "pathFetchRead exampleBackend \<lparr>Path = ''ca_chain'', serial = []\<rparr>
   = (Some \<lparr>Data = [(HTTPContentType, VString ''application/pkix-cert''),
        (HTTPRawBody, VBytes
           ''-----BEGIN CERTIFICATE-----\<newline>TWFu\<newline>-----END CERTIFICATE-----\<newline>-----BEGIN CERTIFICATE-----\<newline>YWJjZA==\<newline>-----END CERTIFICATE-----''),
        (HTTPStatusCode, VInt 200)]\<rparr>, None, [])
   \<and> list_all (\<lambda>l. \<not> blank l)
       (text_lines
          ''-----BEGIN CERTIFICATE-----\<newline>TWFu\<newline>-----END CERTIFICATE-----\<newline>-----BEGIN CERTIFICATE-----\<newline>YWJjZA==\<newline>-----END CERTIFICATE-----'')"
proof -
  let ?ca = "\<lparr>CertificateRaw = ''Man'', CAChain = [''abcd'']\<rparr>"
  let ?req = "\<lparr>Path = ''ca_chain'', serial = []\<rparr>"
  have f: "fetchCAInfo exampleBackend = Inr ?ca" by (simp add: exampleBackend_def)
  have p: "Path ?req = ''ca_chain'' \<or> Path ?req = ''cert/ca_chain''" by simp
  have c: "GetFullChain ?ca = [''Man'', ''abcd'']" by (simp add: GetFullChain_def)
  from ca_chain_format [OF f p] show ?thesis
    unfolding c chain_Man_abcd list_all_iff by simp
qed

text \<open>
  C10, as the code has it: a structured read of \<^verbatim>\<open>cert/ca_chain\<close> on a mount
  whose CA lookup succeeds returns a response with both the \<^verbatim>\<open>certificate\<close> and
  the \<^verbatim>\<open>ca_chain\<close> field, and both hold the same chain text.
\<close>

theorem ca_chain_structured_read:
  assumes "Path req = ''cert/ca_chain''" and "fetchCAInfo b = Inr ca"
  shows "pathFetchRead b req =
    (Some \<lparr>Data =
       [(''certificate'', VString (buildChain (GetFullChain ca))),
        (''revocation_time'', VInt64 0),
        (''revocation_time_rfc3339'', VString []),
        (''ca_chain'', VString (buildChain (GetFullChain ca)))]\<rparr>,
     None, [])"
proof -
  from assms(1) have p: "Path req = ''ca_chain'' \<or> Path req = ''cert/ca_chain''" by simp
  show ?thesis
    using assms(1) buildChain_nonempty [OF GetFullChain_nonempty [of ca]]
    by (simp add: pathFetchRead_def resolve_chain [OF assms(2) p] reply_def init_locals_def
        IsError_def structuredData_def)
qed

theorem ca_chain_structured_read_witness:
  "pathFetchRead exampleBackend \<lparr>Path = ''cert/ca_chain'', serial = []\<rparr> =
    (Some \<lparr>Data =
       [(''certificate'', VString (buildChain [''Man'', ''abcd''])),
        (''revocation_time'', VInt64 0),
        (''revocation_time_rfc3339'', VString []),
        (''ca_chain'', VString (buildChain [''Man'', ''abcd'']))]\<rparr>,
     None, [])"
  using ca_chain_structured_read
    [where req = "\<lparr>Path = ''cert/ca_chain'', serial = []\<rparr>" and b = exampleBackend
       and ca = "\<lparr>CertificateRaw = ''Man'', CAChain = [''abcd'']\<rparr>"]
  by (simp add: exampleBackend_def GetFullChain_def)

text \<open>
  The claim as the spec states it fails for a mount without a CA: the response is the
  error envelope, with neither field.
\<close>

theorem ca_chain_fields_counterexample:
  "pathFetchRead
     (exampleBackend\<lparr>fetchCAInfo := Inl (UserError ''no default issuer currently configured'')\<rparr>)
     \<lparr>Path = ''cert/ca_chain'', serial = []\<rparr>
   = (Some \<lparr>Data = [(''error'', VString ''no default issuer currently configured'')]\<rparr>, None, [])"
  by (simp add: pathFetchRead_def resolve_def dispatch_def isCAPath_def resolveCA_def
      failWith_def reply_def init_locals_def IsError_def ErrorResponse_def exampleBackend_def)

end
